theory Spec2Isabelle
  imports
    Complex_Main
    "HOL-Library.AList"
    "HOL-Library.Char_ord"
    "HOL-Library.List_Lexorder"
    "HOL-Library.Product_Lexorder"
begin

section \<open>Python values\<close>

text \<open>
  The agents and the memories pass JSON-like documents around: dictionaries with string
  keys (kept as association lists in insertion order, as Python dictionaries are),
  lists, strings, numbers, booleans and \<open>None\<close>. Timestamps come from \<open>time.time()\<close>;
  they are modelled as exact reals.
\<close>

datatype pyval =
    PNone
  | PBool bool
  | PInt int
  | PFloat real
  | PStr string
  | PList "pyval list"
  | PDict "(string \<times> pyval) list"

type_synonym pydict = "(string \<times> pyval) list"

datatype py_error =
    KeyError string
  | ZeroDivisionError
  | AttributeError string
  | TypeError string
  | IndexError

text \<open>\<open>d.get(k, default)\<close>\<close>

definition dict_get :: "pydict \<Rightarrow> string \<Rightarrow> pyval \<Rightarrow> pyval" where
  "dict_get d k dflt = (case map_of d k of None \<Rightarrow> dflt | Some v \<Rightarrow> v)"

text \<open>\<open>k in d\<close>\<close>

definition dict_has :: "('k \<times> 'v) list \<Rightarrow> 'k \<Rightarrow> bool" where
  "dict_has d k = (map_of d k \<noteq> None)"

text \<open>Decimal rendering of an integer, as an f-string prints it.\<close>

definition digit_char :: "nat \<Rightarrow> char" where
  "digit_char d = char_of (48 + d)"

function str_nat :: "nat \<Rightarrow> string" where
  "str_nat n = (if n < 10 then [digit_char n] else str_nat (n div 10) @ [digit_char (n mod 10)])"
  by pat_completeness auto
termination
  by (relation "measure id") auto

definition str_int :: "int \<Rightarrow> string" where
  "str_int i = (if i < 0 then CHR ''-'' # str_nat (nat (- i)) else str_nat (nat i))"

section \<open>Calls that may raise\<close>

text \<open>
  A call into code that may raise yields an outcome: the value returned, or the raised
  exception, an instance of \<open>Exception\<close>, kept as its message \<open>str(e)\<close>. \<open>try_except\<close> is
  \<open>try: body except Exception as e: handler(str(e))\<close>.
\<close>

datatype 'a outcome = Returns 'a | Raises string


section \<open>ReactAgent\<close>

text \<open>
  The execution context of \<open>ReactAgent.execute\<close>: the task and the three lists the loop
  appends to. An action is the pair of its name and its input dictionary.
\<close>

record agent_context =
  task :: string
  thoughts :: "string list"
  actions :: "(string \<times> pydict) list"
  observations :: "pyval list"

text \<open>The dictionary \<open>execute\<close> returns.\<close>

record exec_result =
  res_task :: string
  res_answer :: string
  res_iterations :: int
  res_context :: agent_context

text \<open>\<open>ReactAgent._generate_thought\<close>\<close>

definition generate_thought :: "agent_context \<Rightarrow> int \<Rightarrow> string" where
  "generate_thought ctx current_iteration =
     ''Thinking about how to '' @ task ctx @ '' (iteration '' @ str_int current_iteration @ '')''"

text \<open>\<open>ReactAgent._decide_action\<close>\<close>

definition react_decide_action :: "'s \<Rightarrow> agent_context \<Rightarrow> (string \<times> pydict) outcome" where
  "react_decide_action s ctx =
     Returns (''dummy_action'', [(''query'', PStr (''Placeholder action for '' @ task ctx))])"

text \<open>\<open>ReactAgent._execute_action\<close>; the agent state \<open>s\<close> is not touched.\<close>

definition react_execute_action :: "'s \<Rightarrow> string \<Rightarrow> pydict \<Rightarrow> 's \<times> pyval outcome" where
  "react_execute_action s action_name action_input =
     (s, Returns (PDict [(''status'', PStr ''error''),
                         (''error'', PStr (''Unknown action or tool: '' @ action_name))]))"

text \<open>\<open>ReactAgent._should_terminate\<close>\<close>

definition should_terminate :: "int \<Rightarrow> int \<Rightarrow> agent_context \<Rightarrow> bool" where
  "should_terminate max_iterations current_iteration ctx =
     (current_iteration \<ge> max_iterations - 1)"

definition generic_answer :: string where
  "generic_answer =
     ''Task execution completed. Please check the detailed results for more information.''"

text \<open>
  \<open>ReactAgent._generate_final_answer\<close>. The inner test of the source is
  \<open>isinstance(result, dict) and "status" == "success"\<close>: its second operand compares the
  two string literals. \<open>str_of\<close> stands for Python's builtin \<open>str\<close>.
\<close>

fun scan_observations :: "(pyval \<Rightarrow> string) \<Rightarrow> pyval list \<Rightarrow> string option" where
  "scan_observations str_of [] = None"
| "scan_observations str_of (observation # rest) =
     (case observation of
        PDict od \<Rightarrow>
          (case map_of od ''result'' of
             Some result \<Rightarrow>
               (case result of
                  PDict rd \<Rightarrow>
                    (if ''status'' = ''success''
                     then Some (str_of (dict_get rd ''result'' (PStr ''Task completed successfully'')))
                     else scan_observations str_of rest)
                | _ \<Rightarrow> scan_observations str_of rest)
           | None \<Rightarrow> scan_observations str_of rest)
      | _ \<Rightarrow> scan_observations str_of rest)"

definition generate_final_answer :: "(pyval \<Rightarrow> string) \<Rightarrow> agent_context \<Rightarrow> string" where
  "generate_final_answer str_of ctx =
     (case scan_observations str_of (observations ctx) of
        Some a \<Rightarrow> a
      | None \<Rightarrow> generic_answer)"

text \<open>
  One pass through the body of the \<open>while\<close> loop of \<open>ReactAgent.execute\<close>, up to the
  termination check: thought, action, observation, each appended to the context.
  \<open>decide\<close> and \<open>exec\<close> are the two methods a subclass overrides (\<open>_decide_action\<close>,
  \<open>_execute_action\<close>); \<open>s\<close> is the state of the agent that they read and that the action
  executor may change (the loaded tools of a \<open>ToolAgent\<close>). An exception raised by one
  of the two leaves the loop and \<open>execute\<close>.
\<close>

definition react_iteration ::
  "('s \<Rightarrow> agent_context \<Rightarrow> (string \<times> pydict) outcome) \<Rightarrow> ('s \<Rightarrow> string \<Rightarrow> pydict \<Rightarrow> 's \<times> pyval outcome) \<Rightarrow>
   int \<Rightarrow> 's \<Rightarrow> agent_context \<Rightarrow> ('s \<times> agent_context) outcome" where
  "react_iteration decide exec current_iteration s ctx =
     (let thought = generate_thought ctx current_iteration;
          ctx1 = ctx\<lparr>thoughts := thoughts ctx @ [thought]\<rparr>
      in case decide s ctx1 of
           Raises msg \<Rightarrow> Raises msg
         | Returns action \<Rightarrow>
             let ctx2 = ctx1\<lparr>actions := actions ctx1 @ [action]\<rparr>
             in case exec s (fst action) (snd action) of
                  (s', Raises msg) \<Rightarrow> Raises msg
                | (s', Returns observation) \<Rightarrow>
                    Returns (s', ctx2\<lparr>observations := observations ctx2 @ [observation]\<rparr>))"

text \<open>
  The loop itself: it stops when the counter reaches \<open>max_iterations\<close> or at the
  \<open>break\<close>, and returns the final \<open>current_iteration\<close>, the state and the context.
\<close>

function react_loop ::
  "('s \<Rightarrow> agent_context \<Rightarrow> (string \<times> pydict) outcome) \<Rightarrow> ('s \<Rightarrow> string \<Rightarrow> pydict \<Rightarrow> 's \<times> pyval outcome) \<Rightarrow>
   int \<Rightarrow> int \<Rightarrow> 's \<Rightarrow> agent_context \<Rightarrow> (int \<times> 's \<times> agent_context) outcome" where
  "react_loop decide exec max_iterations current_iteration s ctx =
     (if current_iteration < max_iterations then
        (case react_iteration decide exec current_iteration s ctx of
           Raises msg \<Rightarrow> Raises msg
         | Returns (s', ctx3) \<Rightarrow>
             if should_terminate max_iterations current_iteration ctx3
             then Returns (current_iteration, s', ctx3)
             else react_loop decide exec max_iterations (current_iteration + 1) s' ctx3)
      else Returns (current_iteration, s, ctx))"
  by pat_completeness auto
termination
  by (relation "measure (\<lambda>(decide, exec, max_iterations, current_iteration, s, ctx).
        nat (max_iterations - current_iteration))") auto

text \<open>\<open>ReactAgent.execute\<close>, also inherited by \<open>ToolAgent\<close>.\<close>

definition execute ::
  "(pyval \<Rightarrow> string) \<Rightarrow> ('s \<Rightarrow> agent_context \<Rightarrow> (string \<times> pydict) outcome) \<Rightarrow>
   ('s \<Rightarrow> string \<Rightarrow> pydict \<Rightarrow> 's \<times> pyval outcome) \<Rightarrow> int \<Rightarrow> 's \<Rightarrow> string \<Rightarrow>
   ('s \<times> exec_result) outcome" where
  "execute str_of decide exec max_iterations s tsk =
     (case react_loop decide exec max_iterations 0 s
             \<lparr>task = tsk, thoughts = [], actions = [], observations = []\<rparr> of
        Raises msg \<Rightarrow> Raises msg
      | Returns (current_iteration, s', ctx) \<Rightarrow>
          Returns (s', \<lparr>res_task = tsk, res_answer = generate_final_answer str_of ctx,
                        res_iterations = current_iteration + 1, res_context = ctx\<rparr>))"

definition react_execute :: "(pyval \<Rightarrow> string) \<Rightarrow> int \<Rightarrow> string \<Rightarrow> exec_result outcome" where
  "react_execute str_of max_iterations tsk =
     map_outcome snd (execute str_of react_decide_action react_execute_action max_iterations () tsk)"

text \<open>
  A rendering function for the concrete runs below: Python's \<open>str\<close> on a string is the
  string itself and on an integer its decimal digits. No other value is rendered in
  those runs.
\<close>

definition plain_str :: "pyval \<Rightarrow> string" where
  "plain_str v = (case v of PStr x \<Rightarrow> x | PInt n \<Rightarrow> str_int n | _ \<Rightarrow> [])"

section \<open>ShortTermMemory\<close>

text \<open>
  Python dictionaries are association lists with distinct keys, in insertion order:
  \<open>d[k] = v\<close> is \<open>AList.update k v d\<close> (in place for a known key, appended for a new
  one) and \<open>del d[k]\<close> is \<open>AList.delete k d\<close> once the key is known to be there.

  \<open>heapq\<close> keeps a binary heap inside a list. The class only observes which entry
  \<open>heappop\<close> returns (the least one; entries are \<open>(time, id)\<close> tuples, compared
  lexicographically) and which entries remain, so the queue is modelled as the list of
  its entries and \<open>heappop\<close> takes the least entry out of it.
\<close>

definition heappush :: "(real \<times> string) list \<Rightarrow> real \<times> string \<Rightarrow> (real \<times> string) list" where
  "heappush q e = q @ [e]"

definition heappop :: "(real \<times> string) list \<Rightarrow> (real \<times> string) \<times> (real \<times> string) list" where
  "heappop q = (Min (set q), remove1 (Min (set q)) q)"

record short_term_memory =
  capacity :: int
  ttl :: int
  items :: "(string \<times> pydict) list"
  access_times :: "(string \<times> real) list"
  creation_times :: "(string \<times> real) list"
  lru_queue :: "(real \<times> string) list"

text \<open>\<open>ShortTermMemory.__init__\<close>\<close>

definition stm_init :: "int \<Rightarrow> int \<Rightarrow> short_term_memory" where
  "stm_init cap ttl_seconds =
     \<lparr>capacity = cap, ttl = ttl_seconds, items = [], access_times = [],
      creation_times = [], lru_queue = []\<rparr>"

text \<open>
  \<open>ShortTermMemory.delete\<close>. Each \<open>del\<close> raises \<open>KeyError\<close> on a missing key; the state
  returned with the error is the one reached when it was raised.
\<close>

definition stm_delete :: "short_term_memory \<Rightarrow> string \<Rightarrow> short_term_memory \<times> (py_error + bool)" where
  "stm_delete s identifier =
     (if \<not> dict_has (items s) identifier then (s, Inr False)
      else
        let s1 = s\<lparr>items := AList.delete identifier (items s)\<rparr> in
        if \<not> dict_has (access_times s1) identifier then (s1, Inl (KeyError identifier))
        else
          let s2 = s1\<lparr>access_times := AList.delete identifier (access_times s1)\<rparr> in
          if \<not> dict_has (creation_times s2) identifier then (s2, Inl (KeyError identifier))
          else
            let s3 = s2\<lparr>creation_times := AList.delete identifier (creation_times s2)\<rparr>;
                s4 = s3\<lparr>lru_queue := filter (\<lambda>(t, i). dict_has (items s3) i) (lru_queue s3)\<rparr>
            in (s4, Inr True))"

text \<open>The loop \<open>for identifier in expired_identifiers: self.delete(identifier)\<close>.\<close>

fun stm_delete_each :: "short_term_memory \<Rightarrow> string list \<Rightarrow> short_term_memory \<times> (py_error + unit)" where
  "stm_delete_each s [] = (s, Inr ())"
| "stm_delete_each s (identifier # rest) =
     (case stm_delete s identifier of
        (s', Inl e) \<Rightarrow> (s', Inl e)
      | (s', Inr _) \<Rightarrow> stm_delete_each s' rest)"

text \<open>\<open>ShortTermMemory._prune_expired\<close>; \<open>current_time\<close> is the reading of \<open>time.time()\<close>.\<close>

definition expired_identifiers :: "short_term_memory \<Rightarrow> real \<Rightarrow> string list" where
  "expired_identifiers s current_time =
     map fst (filter (\<lambda>(identifier, creation_time). current_time - creation_time > real_of_int (ttl s))
                     (creation_times s))"

definition stm_prune_expired :: "short_term_memory \<Rightarrow> real \<Rightarrow> short_term_memory \<times> (py_error + unit)" where
  "stm_prune_expired s current_time = stm_delete_each s (expired_identifiers s current_time)"

text \<open>
  \<open>ShortTermMemory._evict_lru\<close>: pop entries until one names a stored item, delete that
  item and stop.
\<close>

function stm_evict_lru :: "short_term_memory \<Rightarrow> short_term_memory \<times> (py_error + unit)" where
  "stm_evict_lru s =
     (if lru_queue s = [] then (s, Inr ())
      else
        let identifier = snd (fst (heappop (lru_queue s)));
            s1 = s\<lparr>lru_queue := snd (heappop (lru_queue s))\<rparr>
        in if \<not> dict_has (items s1) identifier then stm_evict_lru s1
           else (case stm_delete s1 identifier of
                   (s2, Inl e) \<Rightarrow> (s2, Inl e)
                 | (s2, Inr _) \<Rightarrow> (s2, Inr ())))"
  by pat_completeness auto
termination
proof (relation "measure (\<lambda>s. length (lru_queue s))")
  show "wf (measure (\<lambda>s. length (lru_queue s)))"
    by simp
next
  fix s :: short_term_memory and x xa
  assume ne: "lru_queue s \<noteq> []"
    and "xa = s\<lparr>lru_queue := snd (heappop (lru_queue s))\<rparr>"
  then have xa: "lru_queue xa = remove1 (Min (set (lru_queue s))) (lru_queue s)"
    by (simp add: heappop_def)
  from ne have "Min (set (lru_queue s)) \<in> set (lru_queue s)"
    by (intro Min_in) auto
  with ne have "length (remove1 (Min (set (lru_queue s))) (lru_queue s)) < length (lru_queue s)"
    by (simp add: length_remove1)
  with xa show "(xa, s) \<in> measure (\<lambda>s. length (lru_queue s))"
    by simp
qed

text \<open>
  \<open>ShortTermMemory.add\<close>. \<open>prune_time\<close> and \<open>current_time\<close> are the two readings of
  \<open>time.time()\<close> the call makes, \<open>identifier\<close> is the value of \<open>str(uuid.uuid4())\<close>.
  \<open>stm_insert\<close> is the block of four assignments that stores the item and pushes its
  queue entry. The percentage computed for the log divides by the capacity.
\<close>

definition stm_insert :: "short_term_memory \<Rightarrow> real \<Rightarrow> string \<Rightarrow> pydict \<Rightarrow> short_term_memory" where
  "stm_insert s current_time identifier item =
     s\<lparr>items := AList.update identifier item (items s),
       access_times := AList.update identifier current_time (access_times s),
       creation_times := AList.update identifier current_time (creation_times s),
       lru_queue := heappush (lru_queue s) (current_time, identifier)\<rparr>"

definition stm_add ::
  "short_term_memory \<Rightarrow> real \<Rightarrow> real \<Rightarrow> string \<Rightarrow> pydict \<Rightarrow> short_term_memory \<times> (py_error + string)" where
  "stm_add s prune_time current_time identifier item =
     (case stm_prune_expired s prune_time of
        (s1, Inl e) \<Rightarrow> (s1, Inl e)
      | (s1, Inr _) \<Rightarrow>
          let s2 = stm_insert s1 current_time identifier item
          in case (if int (length (items s2)) > capacity s2 then stm_evict_lru s2 else (s2, Inr ())) of
               (s3, Inl e) \<Rightarrow> (s3, Inl e)
             | (s3, Inr _) \<Rightarrow>
                 if capacity s3 = 0 then (s3, Inl ZeroDivisionError) else (s3, Inr identifier))"

text \<open>\<open>ShortTermMemory.get\<close>; the result \<open>None\<close> is Python's \<open>None\<close>.\<close>

definition stm_get ::
  "short_term_memory \<Rightarrow> real \<Rightarrow> real \<Rightarrow> string \<Rightarrow> short_term_memory \<times> (py_error + pydict option)" where
  "stm_get s prune_time current_time identifier =
     (case stm_prune_expired s prune_time of
        (s1, Inl e) \<Rightarrow> (s1, Inl e)
      | (s1, Inr _) \<Rightarrow>
          if \<not> dict_has (items s1) identifier then (s1, Inr None)
          else
            let s2 = s1\<lparr>access_times := AList.update identifier current_time (access_times s1)\<rparr>
            in (s2, Inr (map_of (items s2) identifier)))"

text \<open>A sequence of \<open>add\<close> calls; a caller that catches an error goes on with the store as it is.\<close>

fun stm_add_all ::
  "short_term_memory \<Rightarrow> (real \<times> real \<times> string \<times> pydict) list \<Rightarrow> short_term_memory" where
  "stm_add_all s [] = s"
| "stm_add_all s ((prune_time, current_time, identifier, item) # rest) =
     stm_add_all (fst (stm_add s prune_time current_time identifier item)) rest"

text \<open>
  The representation invariant of a store: the three dictionaries have distinct keys
  and the same keys. The queue is not constrained: it may hold entries of identifiers
  that are no longer stored.
\<close>

definition stm_consistent :: "short_term_memory \<Rightarrow> bool" where
  "stm_consistent s =
     (distinct (map fst (items s)) \<and> distinct (map fst (access_times s)) \<and>
      distinct (map fst (creation_times s)) \<and>
      set (map fst (access_times s)) = set (map fst (items s)) \<and>
      set (map fst (creation_times s)) = set (map fst (items s)))"

text \<open>
  A store whose queue holds a stale entry: \<open>id-a\<close> was deleted, its entry is still queued
  ahead of the entry of the stored \<open>id-b\<close>.
\<close>

definition stale_store :: short_term_memory where
  "stale_store =
     \<lparr>capacity = 1, ttl = 3600,
      items = [(''id-b'', [(''name'', PStr ''B'')])],
      access_times = [(''id-b'', 2)],
      creation_times = [(''id-b'', 2)],
      lru_queue = [(1, ''id-a''), (2, ''id-b'')]\<rparr>"

section \<open>LongTermMemory\<close>

text \<open>
  The store keeps one JSON document per identifier on disk (\<open>files\<close>, the content of
  \<open>storage_path\<close>: the file \<open>id.json\<close> is the entry \<open>id\<close>) and, when \<open>index_in_memory\<close> is
  set, three dictionaries in memory. Reading and writing a file is taken to succeed.
  The keys of the two secondary indexes are the values found under \<open>project\<close> and
  \<open>category\<close>; a list or a dictionary there is unhashable and makes the dictionary
  operation raise \<open>TypeError\<close>. Keys are compared structurally.
\<close>

record long_term_memory =
  index_in_memory :: bool
  max_items_per_category :: int
  files :: "(string \<times> pydict) list"
  index :: "(string \<times> pydict) list"
  category_index :: "(pyval \<times> string list) list"
  project_index :: "(pyval \<times> string list) list"

definition hashable :: "pyval \<Rightarrow> bool" where
  "hashable v = (case v of PList _ \<Rightarrow> False | PDict _ \<Rightarrow> False | _ \<Rightarrow> True)"

text \<open>The truth value of a Python value, as \<open>if v:\<close> takes it.\<close>

definition truthy :: "pyval \<Rightarrow> bool" where
  "truthy v =
     (case v of
        PNone \<Rightarrow> False
      | PBool b \<Rightarrow> b
      | PInt n \<Rightarrow> n \<noteq> 0
      | PFloat x \<Rightarrow> x \<noteq> 0
      | PStr x \<Rightarrow> x \<noteq> []
      | PList xs \<Rightarrow> xs \<noteq> []
      | PDict d \<Rightarrow> d \<noteq> [])"

text \<open>\<open>item.get("_meta", {}).get(key, default)\<close>; a \<open>_meta\<close> that is no dictionary has no \<open>get\<close>.\<close>

definition meta_field :: "pydict \<Rightarrow> string \<Rightarrow> pyval \<Rightarrow> py_error + pyval" where
  "meta_field item key dflt =
     (case map_of item ''_meta'' of
        None \<Rightarrow> Inr dflt
      | Some (PDict meta) \<Rightarrow> Inr (dict_get meta key dflt)
      | Some _ \<Rightarrow> Inl (AttributeError ''get''))"

text \<open>
  \<open>if key not in idx: idx[key] = []\<close> followed by \<open>idx[key].append(identifier)\<close>.
\<close>

definition bucket_append ::
  "(pyval \<times> string list) list \<Rightarrow> pyval \<Rightarrow> string \<Rightarrow> py_error + (pyval \<times> string list) list" where
  "bucket_append idx key identifier =
     (if \<not> hashable key then Inl (TypeError ''unhashable type'')
      else Inr (AList.update key ((case map_of idx key of None \<Rightarrow> [] | Some ids \<Rightarrow> ids) @ [identifier]) idx))"

text \<open>
  The removal in \<open>update\<close>:
  \<open>if key in idx and identifier in idx[key]: idx[key].remove(identifier)\<close>.
\<close>

definition bucket_remove ::
  "(pyval \<times> string list) list \<Rightarrow> pyval \<Rightarrow> string \<Rightarrow> py_error + (pyval \<times> string list) list" where
  "bucket_remove idx key identifier =
     (if \<not> hashable key then Inl (TypeError ''unhashable type'')
      else case map_of idx key of
             None \<Rightarrow> Inr idx
           | Some ids \<Rightarrow>
               if identifier \<in> set ids then Inr (AList.update key (remove1 identifier ids) idx)
               else Inr idx)"

text \<open>
  The removal in \<open>_remove_from_indexes\<close>: as above, and then
  \<open>if not idx[key]: del idx[key]\<close>.
\<close>

definition bucket_remove_clean ::
  "(pyval \<times> string list) list \<Rightarrow> pyval \<Rightarrow> string \<Rightarrow> py_error + (pyval \<times> string list) list" where
  "bucket_remove_clean idx key identifier =
     (if \<not> hashable key then Inl (TypeError ''unhashable type'')
      else case map_of idx key of
             None \<Rightarrow> Inr idx
           | Some ids \<Rightarrow>
               if identifier \<in> set ids then
                 (if remove1 identifier ids = [] then Inr (AList.delete key idx)
                  else Inr (AList.update key (remove1 identifier ids) idx))
               else Inr idx)"

text \<open>\<open>LongTermMemory.__init__\<close> on an empty storage directory.\<close>

definition ltm_init :: "bool \<Rightarrow> int \<Rightarrow> long_term_memory" where
  "ltm_init in_memory max_items =
     \<lparr>index_in_memory = in_memory, max_items_per_category = max_items,
      files = [], index = [], category_index = [], project_index = []\<rparr>"

text \<open>\<open>LongTermMemory.get\<close>\<close>

definition ltm_get :: "long_term_memory \<Rightarrow> string \<Rightarrow> pydict option" where
  "ltm_get s identifier =
     (if index_in_memory s \<and> dict_has (index s) identifier then map_of (index s) identifier
      else map_of (files s) identifier)"

text \<open>\<open>LongTermMemory._save_item\<close> and \<open>LongTermMemory._delete_item_file\<close>\<close>

definition save_item :: "long_term_memory \<Rightarrow> string \<Rightarrow> pydict \<Rightarrow> long_term_memory" where
  "save_item s identifier item = s\<lparr>files := AList.update identifier item (files s)\<rparr>"

definition delete_item_file :: "long_term_memory \<Rightarrow> string \<Rightarrow> long_term_memory \<times> bool" where
  "delete_item_file s identifier =
     (if \<not> dict_has (files s) identifier then (s, False)
      else (s\<lparr>files := AList.delete identifier (files s)\<rparr>, True))"

text \<open>\<open>LongTermMemory._remove_from_indexes\<close>\<close>

definition remove_from_indexes ::
  "long_term_memory \<Rightarrow> string \<Rightarrow> long_term_memory \<times> (py_error + unit)" where
  "remove_from_indexes s identifier =
     (case map_of (index s) identifier of
        None \<Rightarrow> (s, Inr ())
      | Some entry \<Rightarrow>
          (case meta_field entry ''project'' (PStr ''default'') of
             Inl e \<Rightarrow> (s, Inl e)
           | Inr project \<Rightarrow>
               (case meta_field entry ''category'' (PStr ''general'') of
                  Inl e \<Rightarrow> (s, Inl e)
                | Inr category \<Rightarrow>
                    let s1 = s\<lparr>index := AList.delete identifier (index s)\<rparr> in
                    (case bucket_remove_clean (project_index s1) project identifier of
                       Inl e \<Rightarrow> (s1, Inl e)
                     | Inr pidx \<Rightarrow>
                         let s2 = s1\<lparr>project_index := pidx\<rparr> in
                         (case bucket_remove_clean (category_index s2) category identifier of
                            Inl e \<Rightarrow> (s2, Inl e)
                          | Inr cidx \<Rightarrow> (s2\<lparr>category_index := cidx\<rparr>, Inr ()))))))"

text \<open>
  \<open>LongTermMemory.add\<close>; \<open>timestamp\<close> is the reading of \<open>time.time()\<close> and \<open>identifier\<close> the
  value of \<open>str(uuid.uuid4())\<close>. \<open>prune_category\<close> is the block under
  \<open>if len(self.category_index[category]) > self.max_items_per_category\<close>.
\<close>

definition prune_category ::
  "long_term_memory \<Rightarrow> pyval \<Rightarrow> long_term_memory \<times> (py_error + unit)" where
  "prune_category s category =
     (case map_of (category_index s) category of
        None \<Rightarrow> (s, Inl (KeyError ''category''))
      | Some [] \<Rightarrow> (s, Inl IndexError)
      | Some (oldest_id # rest) \<Rightarrow>
          let s1 = s\<lparr>category_index := AList.update category rest (category_index s)\<rparr> in
          (case remove_from_indexes s1 oldest_id of
             (s2, Inl e) \<Rightarrow> (s2, Inl e)
           | (s2, Inr _) \<Rightarrow> (fst (delete_item_file s2 oldest_id), Inr ())))"

definition ltm_add ::
  "long_term_memory \<Rightarrow> real \<Rightarrow> string \<Rightarrow> pydict \<Rightarrow> long_term_memory \<times> (py_error + string)" where
  "ltm_add s timestamp identifier item =
     (let project = dict_get item ''project'' (PStr ''default'');
          category = dict_get item ''category'' (PStr ''general'');
          item_with_metadata = AList.update ''_meta''
            (PDict [(''id'', PStr identifier), (''created_at'', PFloat timestamp),
                    (''updated_at'', PFloat timestamp), (''project'', project),
                    (''category'', category)]) item;
          s1 = save_item s identifier item_with_metadata
      in if \<not> index_in_memory s1 then (s1, Inr identifier)
         else
           let s2 = s1\<lparr>index := AList.update identifier item_with_metadata (index s1)\<rparr> in
           (case bucket_append (category_index s2) category identifier of
              Inl e \<Rightarrow> (s2, Inl e)
            | Inr cidx \<Rightarrow>
                let s3 = s2\<lparr>category_index := cidx\<rparr> in
                (case (if int (length (case map_of cidx category of None \<Rightarrow> [] | Some ids \<Rightarrow> ids))
                            > max_items_per_category s3
                       then prune_category s3 category else (s3, Inr ())) of
                   (s4, Inl e) \<Rightarrow> (s4, Inl e)
                 | (s4, Inr _) \<Rightarrow>
                     (case bucket_append (project_index s4) project identifier of
                        Inl e \<Rightarrow> (s4, Inl e)
                      | Inr pidx \<Rightarrow> (s4\<lparr>project_index := pidx\<rparr>, Inr identifier)))))"

text \<open>
  \<open>LongTermMemory.update\<close>. When the stored document has a \<open>_meta\<close> dictionary, the new
  document takes that very object, so every write to \<open>item_with_metadata["_meta"]\<close> is
  also a write to the metadata of \<open>existing_item\<close>; with the in-memory index,
  \<open>existing_item\<close> is the index entry itself. \<open>share_meta\<close> makes that write to the index
  entry. The file is written before the project and the category are changed.
  \<open>now1\<close> and \<open>now2\<close> are the readings of \<open>time.time()\<close>.
\<close>

definition share_meta ::
  "long_term_memory \<Rightarrow> string \<Rightarrow> pydict \<Rightarrow> bool \<Rightarrow> pydict \<Rightarrow> long_term_memory" where
  "share_meta s identifier existing_item shared meta =
     (if shared \<and> index_in_memory s \<and> dict_has (index s) identifier
      then s\<lparr>index := AList.update identifier (AList.update ''_meta'' (PDict meta) existing_item) (index s)\<rparr>
      else s)"

text \<open>The two steps that move an identifier from the bucket of \<open>old\<close> to the bucket of \<open>new\<close>.\<close>

definition move_bucket ::
  "(pyval \<times> string list) list \<Rightarrow> pyval \<Rightarrow> pyval \<Rightarrow> string \<Rightarrow> py_error + (pyval \<times> string list) list" where
  "move_bucket idx old new identifier =
     (case bucket_remove idx old identifier of
        Inl e \<Rightarrow> Inl e
      | Inr idx1 \<Rightarrow> bucket_append idx1 new identifier)"

definition update_indexes ::
  "long_term_memory \<Rightarrow> string \<Rightarrow> pydict \<Rightarrow> pydict \<Rightarrow> bool \<Rightarrow> pydict \<Rightarrow>
   long_term_memory \<times> (py_error + bool)" where
  "update_indexes s identifier item existing_item shared meta =
     (case meta_field existing_item ''project'' (PStr ''default'') of
        Inl e \<Rightarrow> (s, Inl e)
      | Inr old_project \<Rightarrow>
      (case meta_field existing_item ''category'' (PStr ''general'') of
        Inl e \<Rightarrow> (s, Inl e)
      | Inr old_category \<Rightarrow>
          let new_project = dict_get item ''project'' old_project;
              new_category = dict_get item ''category'' old_category;
              meta1 = (if new_project \<noteq> old_project
                       then AList.update ''project'' new_project meta else meta);
              s1 = share_meta s identifier existing_item shared meta1
          in
          (case (if new_project \<noteq> old_project
                 then move_bucket (project_index s1) old_project new_project identifier
                 else Inr (project_index s1)) of
             Inl e \<Rightarrow> (s1, Inl e)
           | Inr pidx \<Rightarrow>
               let s2 = s1\<lparr>project_index := pidx\<rparr>;
                   meta2 = (if new_category \<noteq> old_category
                            then AList.update ''category'' new_category meta1 else meta1);
                   s3 = share_meta s2 identifier existing_item shared meta2
               in
               (case (if new_category \<noteq> old_category
                      then move_bucket (category_index s3) old_category new_category identifier
                      else Inr (category_index s3)) of
                  Inl e \<Rightarrow> (s3, Inl e)
                | Inr cidx \<Rightarrow>
                    (s3\<lparr>category_index := cidx,
                        index := AList.update identifier (AList.update ''_meta'' (PDict meta2) item)
                                   (index s3)\<rparr>,
                     Inr True)))))"

definition ltm_update ::
  "long_term_memory \<Rightarrow> real \<Rightarrow> real \<Rightarrow> string \<Rightarrow> pydict \<Rightarrow> long_term_memory \<times> (py_error + bool)" where
  "ltm_update s now1 now2 identifier item =
     (case ltm_get s identifier of
        None \<Rightarrow> (s, Inr False)
      | Some existing_item \<Rightarrow>
          (case (case map_of existing_item ''_meta'' of
                   Some (PDict meta) \<Rightarrow> Inr (True, AList.update ''updated_at'' (PFloat now1) meta)
                 | Some _ \<Rightarrow> Inl (TypeError ''item assignment'')
                 | None \<Rightarrow>
                     Inr (False,
                          [(''id'', PStr identifier), (''created_at'', PFloat now1),
                           (''updated_at'', PFloat now2),
                           (''project'', dict_get item ''project'' (PStr ''default'')),
                           (''category'', dict_get item ''category'' (PStr ''general''))])) of
             Inl e \<Rightarrow> (s, Inl e)
           | Inr (shared, meta) \<Rightarrow>
               let s1 = share_meta s identifier existing_item shared meta;
                   s2 = save_item s1 identifier (AList.update ''_meta'' (PDict meta) item)
               in if \<not> index_in_memory s2 then (s2, Inr True)
                  else update_indexes s2 identifier item
                         (if shared then AList.update ''_meta'' (PDict meta) existing_item
                          else existing_item)
                         shared meta))"

text \<open>
  \<open>LongTermMemory._matches_query\<close>. \<open>lt\<close> is Python's \<open><\<close> on two values (it raises
  \<open>TypeError\<close> on values that are not ordered) and \<open>dumps\<close> is \<open>json.dumps\<close>.
\<close>

fun split_on :: "char \<Rightarrow> string \<Rightarrow> string list" where
  "split_on c [] = [[]]"
| "split_on c (x # xs) =
     (if x = c then [] # split_on c xs
      else case split_on c xs of w # ws \<Rightarrow> (x # w) # ws | [] \<Rightarrow> [[x]])"

fun walk_path :: "pyval \<Rightarrow> string list \<Rightarrow> pyval option" where
  "walk_path cur [] = Some cur"
| "walk_path cur (part # parts) =
     (case cur of
        PDict d \<Rightarrow> (case map_of d part of Some v \<Rightarrow> walk_path v parts | None \<Rightarrow> None)
      | _ \<Rightarrow> None)"

text \<open>\<open>str.lower\<close> on ASCII text, and the substring test \<open>sub in text\<close>.\<close>

definition lower_char :: "char \<Rightarrow> char" where
  "lower_char c = (if CHR ''A'' \<le> c \<and> c \<le> CHR ''Z'' then char_of (of_char c + (32::nat)) else c)"

definition lower :: "string \<Rightarrow> string" where
  "lower = map lower_char"

fun starts_with :: "string \<Rightarrow> string \<Rightarrow> bool" where
  "starts_with text [] = True"
| "starts_with [] (p # ps) = False"
| "starts_with (c # cs) (p # ps) = (c = p \<and> starts_with cs ps)"

fun contains :: "string \<Rightarrow> string \<Rightarrow> bool" where
  "contains [] sub = (sub = [])"
| "contains (c # cs) sub = (starts_with (c # cs) sub \<or> contains cs sub)"

text \<open>\<open>isinstance(value, str)\<close>\<close>

definition is_str :: "pyval \<Rightarrow> bool" where
  "is_str v = (case v of PStr _ \<Rightarrow> True | _ \<Rightarrow> False)"

fun matches_query ::
  "(pyval \<Rightarrow> pyval \<Rightarrow> py_error + bool) \<Rightarrow> (pydict \<Rightarrow> string) \<Rightarrow> pydict \<Rightarrow> pydict \<Rightarrow> py_error + bool" where
  "matches_query lt dumps item [] = Inr True"
| "matches_query lt dumps item ((key, val) # rest) =
     (if CHR ''.'' \<in> set key then
        (case walk_path (PDict item) (split_on CHR ''.'' key) of
           None \<Rightarrow> Inr False
         | Some cur \<Rightarrow> if cur \<noteq> val then Inr False else matches_query lt dumps item rest)
      else if key = ''_text'' \<and> is_str val then
        (case val of
           PStr x \<Rightarrow>
             if \<not> contains (lower (dumps item)) (lower x) then Inr False
             else matches_query lt dumps item rest
         | _ \<Rightarrow> matches_query lt dumps item rest)
      else if key = ''_date_after'' \<and> dict_has item ''_meta'' then
        (case map_of item ''_meta'' of
           Some (PDict meta) \<Rightarrow>
             (case lt (dict_get meta ''created_at'' (PInt 0)) val of
                Inl e \<Rightarrow> Inl e
              | Inr True \<Rightarrow> Inr False
              | Inr False \<Rightarrow> matches_query lt dumps item rest)
         | _ \<Rightarrow> Inl (AttributeError ''get''))
      else if key = ''_date_before'' \<and> dict_has item ''_meta'' then
        (case map_of item ''_meta'' of
           Some (PDict meta) \<Rightarrow>
             (case lt val (dict_get meta ''created_at'' (PInt 0)) of
                Inl e \<Rightarrow> Inl e
              | Inr True \<Rightarrow> Inr False
              | Inr False \<Rightarrow> matches_query lt dumps item rest)
         | _ \<Rightarrow> Inl (AttributeError ''get''))
      else if \<not> dict_has item key \<or> map_of item key \<noteq> Some val then Inr False
      else matches_query lt dumps item rest)"

text \<open>
  \<open>LongTermMemory.search\<close>. A result is the triple of \<open>id\<close>, \<open>item\<close> and \<open>created_at\<close>.
  \<open>query.pop("project", None)\<close> and \<open>query.pop("category", None)\<close> work on the caller's
  dictionary; the function returns that dictionary as the call leaves it, next to the
  results. The store itself is not changed.
\<close>

type_synonym search_hit = "string \<times> pydict \<times> pyval"

text \<open>The body of both \<open>for\<close> loops from \<open>if item and self._matches_query(item, query)\<close> on.\<close>

definition try_hit ::
  "(pyval \<Rightarrow> pyval \<Rightarrow> py_error + bool) \<Rightarrow> (pydict \<Rightarrow> string) \<Rightarrow> pydict \<Rightarrow> string \<Rightarrow>
   pydict option \<Rightarrow> search_hit list \<Rightarrow> py_error + search_hit list" where
  "try_hit lt dumps query identifier entry results =
     (case entry of
        None \<Rightarrow> Inr results
      | Some item \<Rightarrow>
          if item = [] then Inr results
          else case matches_query lt dumps item query of
                 Inl e \<Rightarrow> Inl e
               | Inr False \<Rightarrow> Inr results
               | Inr True \<Rightarrow>
                   (case meta_field item ''created_at'' (PInt 0) of
                      Inl e \<Rightarrow> Inl e
                    | Inr created \<Rightarrow> Inr (results @ [(identifier, item, created)])))"

text \<open>The loop over the identifiers of the in-memory index.\<close>

fun scan_index ::
  "(pyval \<Rightarrow> pyval \<Rightarrow> py_error + bool) \<Rightarrow> (pydict \<Rightarrow> string) \<Rightarrow> long_term_memory \<Rightarrow> pydict \<Rightarrow>
   int \<Rightarrow> string list \<Rightarrow> search_hit list \<Rightarrow> py_error + search_hit list" where
  "scan_index lt dumps s query limit [] results = Inr results"
| "scan_index lt dumps s query limit (identifier # rest) results =
     (case try_hit lt dumps query identifier (map_of (index s) identifier) results of
        Inl e \<Rightarrow> Inl e
      | Inr results' \<Rightarrow>
          if length results' > length results \<and> int (length results') \<ge> limit then Inr results'
          else scan_index lt dumps s query limit rest results')"

text \<open>The loop over the files of the storage directory, when there is no index.\<close>

fun scan_files ::
  "(pyval \<Rightarrow> pyval \<Rightarrow> py_error + bool) \<Rightarrow> (pydict \<Rightarrow> string) \<Rightarrow> long_term_memory \<Rightarrow> pydict \<Rightarrow>
   int \<Rightarrow> pyval \<Rightarrow> pyval \<Rightarrow> string list \<Rightarrow> search_hit list \<Rightarrow> py_error + search_hit list" where
  "scan_files lt dumps s query limit project_filter category_filter [] results = Inr results"
| "scan_files lt dumps s query limit project_filter category_filter (identifier # rest) results =
     (case ltm_get s identifier of
        None \<Rightarrow>
          if truthy project_filter \<or> truthy category_filter then Inl (AttributeError ''get'')
          else scan_files lt dumps s query limit project_filter category_filter rest results
      | Some item \<Rightarrow>
          (case (if truthy project_filter then meta_field item ''project'' PNone else Inr project_filter) of
             Inl e \<Rightarrow> Inl e
           | Inr project \<Rightarrow>
               if truthy project_filter \<and> project \<noteq> project_filter
               then scan_files lt dumps s query limit project_filter category_filter rest results
               else
                 (case (if truthy category_filter then meta_field item ''category'' PNone
                        else Inr category_filter) of
                    Inl e \<Rightarrow> Inl e
                  | Inr category \<Rightarrow>
                      if truthy category_filter \<and> category \<noteq> category_filter
                      then scan_files lt dumps s query limit project_filter category_filter rest results
                      else
                        (case try_hit lt dumps query identifier (Some item) results of
                           Inl e \<Rightarrow> Inl e
                         | Inr results' \<Rightarrow>
                             if length results' > length results \<and> int (length results') \<ge> limit
                             then Inr results'
                             else scan_files lt dumps s query limit project_filter category_filter
                                    rest results'))))"

text \<open>
  \<open>results.sort(key=lambda x: x["created_at"], reverse=True)\<close>: a stable sort, newest
  first; hits with equal keys keep their order.
\<close>

fun insert_desc ::
  "(pyval \<Rightarrow> pyval \<Rightarrow> py_error + bool) \<Rightarrow> search_hit \<Rightarrow> search_hit list \<Rightarrow> py_error + search_hit list" where
  "insert_desc lt x [] = Inr [x]"
| "insert_desc lt x (y # ys) =
     (case lt (snd (snd y)) (snd (snd x)) of
        Inl e \<Rightarrow> Inl e
      | Inr True \<Rightarrow> Inr (x # y # ys)
      | Inr False \<Rightarrow> (case insert_desc lt x ys of Inl e \<Rightarrow> Inl e | Inr zs \<Rightarrow> Inr (y # zs)))"

fun sort_desc ::
  "(pyval \<Rightarrow> pyval \<Rightarrow> py_error + bool) \<Rightarrow> search_hit list \<Rightarrow> search_hit list \<Rightarrow> py_error + search_hit list" where
  "sort_desc lt sorted_hits [] = Inr sorted_hits"
| "sort_desc lt sorted_hits (x # xs) =
     (case insert_desc lt x sorted_hits of
        Inl e \<Rightarrow> Inl e
      | Inr sorted_hits' \<Rightarrow> sort_desc lt sorted_hits' xs)"

text \<open>\<open>bucket.get(key, [])\<close> on one of the secondary indexes.\<close>

definition bucket_ids :: "(pyval \<times> string list) list \<Rightarrow> pyval \<Rightarrow> py_error + string list" where
  "bucket_ids idx key =
     (if \<not> hashable key then Inl (TypeError ''unhashable type'')
      else Inr (case map_of idx key of None \<Rightarrow> [] | Some ids \<Rightarrow> ids))"

definition ltm_search ::
  "(pyval \<Rightarrow> pyval \<Rightarrow> py_error + bool) \<Rightarrow> (pydict \<Rightarrow> string) \<Rightarrow> long_term_memory \<Rightarrow> pydict \<Rightarrow> int \<Rightarrow>
   pydict \<times> (py_error + search_hit list)" where
  "ltm_search lt dumps s query limit =
     (let project_filter = dict_get query ''project'' PNone;
          query1 = AList.delete ''project'' query;
          category_filter = dict_get query1 ''category'' PNone;
          query2 = AList.delete ''category'' query1;
          found =
            (if index_in_memory s then
               (case (if truthy project_filter then bucket_ids (project_index s) project_filter
                      else if truthy category_filter then bucket_ids (category_index s) category_filter
                      else Inr (map fst (index s))) of
                  Inl e \<Rightarrow> Inl e
                | Inr item_ids_to_search \<Rightarrow> scan_index lt dumps s query2 limit item_ids_to_search [])
             else scan_files lt dumps s query2 limit project_filter category_filter
                    (map fst (files s)) [])
      in (query2, case found of Inl e \<Rightarrow> Inl e | Inr results \<Rightarrow> sort_desc lt [] results))"

section \<open>Tools: ToolAgent and ToolCollection\<close>

text \<open>
  A tool instance: its \<open>name\<close> attribute, its \<open>execute(**kwargs)\<close> method and, where the
  class has one, its \<open>validate_input(**kwargs)\<close> method.
\<close>

record tool =
  tool_name :: string
  tool_execute :: "pydict \<Rightarrow> pyval outcome"
  tool_validate_input :: "(pydict \<Rightarrow> bool outcome) option"



subsection \<open>ToolAgent\<close>





subsection \<open>ToolCollection\<close>

text \<open>
  \<open>self.tools\<close> and \<open>self.tool_classes\<close>; a registered class is kept as the outcome of
  calling it. \<open>import_module path\<close> is \<open>importlib.import_module(path)\<close>: it raises
  \<open>ImportError\<close>, raises another exception, or yields a module, of which \<open>get_tool\<close> only
  uses the classes whose name ends in \<open>Tool\<close> and that derive from \<open>BaseTool\<close>, in the
  order of \<open>dir(module)\<close>, each kept as the outcome of calling it.
\<close>

record tool_collection =
  tc_tools :: "(string \<times> tool) list"
  tool_classes :: "(string \<times> tool outcome) list"


text \<open>\<open>ToolCollection.register_tool\<close>\<close>

definition register_tool :: "tool_collection \<Rightarrow> tool \<Rightarrow> tool_collection" where
  "register_tool s inst = s\<lparr>tc_tools := AList.update (tool_name inst) inst (tc_tools s)\<rparr>"

text \<open>
  The loop over \<open>dir(module)\<close>: the first tool class is instantiated, registered and
  returned; \<open>None\<close> stands for a loop that ends without a \<open>return\<close>.
\<close>

definition first_tool_class ::
  "tool_collection \<Rightarrow> tool outcome list \<Rightarrow> (tool_collection \<times> tool option) outcome" where
  "first_tool_class s classes =
     (case classes of
        [] \<Rightarrow> Returns (s, None)
      | Raises msg # _ \<Rightarrow> Raises msg
      | Returns inst # _ \<Rightarrow> Returns (register_tool s inst, Some inst))"







section \<open>Text and patterns\<close>

















section \<open>ToolAgent._decide_action\<close>




















section \<open>HybridAgent\<close>
























section \<open>Properties of the agent loop\<close>

declare react_loop.simps [simp del]

lemma scan_observations_None: "scan_observations str_of obs = None"
  by (induction obs) (auto split: pyval.splits option.splits)

lemma generate_final_answer_generic: "generate_final_answer str_of ctx = generic_answer"
  by (simp add: generate_final_answer_def scan_observations_None)

lemma react_iteration_lengths:
  "react_iteration decide exec current_iteration s ctx = Returns (s', ctx3) \<Longrightarrow>
   length (thoughts ctx3) = Suc (length (thoughts ctx)) \<and>
   length (observations ctx3) = Suc (length (observations ctx))"
  by (auto simp: react_iteration_def Let_def split: prod.splits outcome.splits)

lemma react_iteration_returns:
  assumes dec: "\<forall>s c. \<exists>a. decide s c = Returns a"
    and total: "\<forall>s n i. \<exists>s' v. exec s n i = (s', Returns v)"
  shows "\<exists>r. react_iteration decide exec current_iteration s ctx = Returns r"
proof -
  let ?ctx1 = "ctx\<lparr>thoughts := thoughts ctx @ [generate_thought ctx current_iteration]\<rparr>"
  from dec obtain a where a: "decide s ?ctx1 = Returns a"
    by blast
  from total obtain s' v where "exec s (fst a) (snd a) = (s', Returns v)"
    by blast
  with a show ?thesis
    by (simp add: react_iteration_def Let_def)
qed

lemma react_loop_skip:
  "\<not> current_iteration < max_iterations \<Longrightarrow>
   react_loop decide exec max_iterations current_iteration s ctx = Returns (current_iteration, s, ctx)"
  by (subst react_loop.simps) simp

text \<open>
  With a router and an action executor that always return, the loop entered below the cap leaves
  through the \<open>break\<close> with the counter at \<open>max_iterations - 1\<close>, after one pass for
  every counter value in between.
\<close>

lemma react_loop_cap:
  "\<forall>s c. \<exists>a. decide s c = Returns a \<Longrightarrow>
   \<forall>s n i. \<exists>s' v. exec s n i = (s', Returns v) \<Longrightarrow>
   current_iteration < max_iterations \<Longrightarrow>
   \<exists>s' ctx'. react_loop decide exec max_iterations current_iteration s ctx =
       Returns (max_iterations - 1, s', ctx') \<and>
     int (length (thoughts ctx')) = int (length (thoughts ctx)) + (max_iterations - current_iteration) \<and>
     int (length (observations ctx')) =
       int (length (observations ctx)) + (max_iterations - current_iteration)"
proof (induction decide exec max_iterations current_iteration s ctx rule: react_loop.induct)
  case (1 decide exec max_iterations current_iteration s ctx)
  from react_iteration_returns [OF "1.prems"(1,2), of current_iteration s ctx]
  obtain s1 ctx3 where it: "react_iteration decide exec current_iteration s ctx = Returns (s1, ctx3)"
    by auto
  note len = react_iteration_lengths [OF it]
  show ?case
  proof (cases "should_terminate max_iterations current_iteration ctx3")
    case True
    from "1.prems"(3) it True
    have "react_loop decide exec max_iterations current_iteration s ctx =
            Returns (current_iteration, s1, ctx3)"
      by (simp add: react_loop.simps [of decide exec max_iterations current_iteration])
    with True "1.prems"(3) len show ?thesis
      by (auto simp: should_terminate_def)
  next
    case False
    then have lt: "current_iteration + 1 < max_iterations"
      by (simp add: should_terminate_def)
    from "1.prems"(3) it False
    have step: "react_loop decide exec max_iterations current_iteration s ctx =
          react_loop decide exec max_iterations (current_iteration + 1) s1 ctx3"
      by (simp add: react_loop.simps [of decide exec max_iterations current_iteration])
    from "1.IH" [OF "1.prems"(3) it refl False "1.prems"(1,2) lt] len show ?thesis
      by (auto simp: step)
  qed
qed

lemma execute_iterations_pos:
  assumes "\<forall>s c. \<exists>a. decide s c = Returns a"
    and "\<forall>s n i. \<exists>s' v. exec s n i = (s', Returns v)" and "1 \<le> max_iterations"
  shows "\<exists>s' r. execute str_of decide exec max_iterations s tsk = Returns (s', r) \<and>
     res_iterations r = max_iterations \<and>
     int (length (thoughts (res_context r))) = max_iterations \<and>
     int (length (observations (res_context r))) = max_iterations"
proof -
  from assms(3) have "0 < max_iterations" by simp
  from react_loop_cap [OF assms(1,2) this, of s
      "\<lparr>task = tsk, thoughts = [], actions = [], observations = []\<rparr>"]
  show ?thesis
    by (auto simp: execute_def)
qed

lemma execute_iterations_nonpos:
  assumes "max_iterations \<le> 0"
  shows "execute str_of decide exec max_iterations s tsk =
     Returns (s, \<lparr>res_task = tsk, res_answer = generic_answer, res_iterations = 1,
                  res_context = \<lparr>task = tsk, thoughts = [], actions = [], observations = []\<rparr>\<rparr>)"
  using assms by (simp add: execute_def react_loop_skip generate_final_answer_generic)

lemma react_decide_action_returns:
  "\<forall>s c. \<exists>a. react_decide_action s c = Returns a"
  by (simp add: react_decide_action_def)

lemma react_execute_action_returns:
  "\<forall>s n i. \<exists>s' v. react_execute_action s n i = (s', Returns v)"
  by (simp add: react_execute_action_def)

text \<open>
  C1 (as stated, refuted): with \<open>max_iterations\<close> 0 or -1 the loop body never runs, and the
  result still reports \<open>iterations = 1\<close>, which is above the cap.
\<close>

theorem C1_iterations_above_cap:
  "map_outcome res_iterations (react_execute plain_str 0 ''calculate 2+2'') = Returns 1 \<and>
   \<not> (1::int) \<le> 0 \<and>
   map_outcome res_iterations (react_execute plain_str (- 1) ''calculate 2+2'') = Returns 1 \<and>
   \<not> (1::int) \<le> - 1"
  by (simp add: react_execute_def execute_iterations_nonpos)

text \<open>
  C1 (amended): for every task and every cap \<open>N \<ge> 1\<close>, \<open>ReactAgent.execute\<close> returns after
  exactly \<open>N\<close> passes through the thought-action-observation loop (one thought and one
  observation each), with \<open>iterations = N\<close>; for \<open>N \<le> 0\<close> it returns without a single
  pass. The loop is a total function, so it always terminates.
\<close>

theorem C1_loop_runs_to_cap:
  "(1 \<le> N \<longrightarrow>
      (\<exists>r. react_execute str_of N tsk = Returns r \<and>
           res_iterations r = N \<and>
           int (length (thoughts (res_context r))) = N \<and>
           int (length (observations (res_context r))) = N)) \<and>
   (N \<le> 0 \<longrightarrow>
      (\<exists>r. react_execute str_of N tsk = Returns r \<and>
           thoughts (res_context r) = [] \<and> observations (res_context r) = []))"
proof (intro conjI impI)
  assume "1 \<le> N"
  from execute_iterations_pos [OF react_decide_action_returns react_execute_action_returns this,
      of str_of "()" tsk]
  show "\<exists>r. react_execute str_of N tsk = Returns r \<and> res_iterations r = N \<and>
           int (length (thoughts (res_context r))) = N \<and>
           int (length (observations (res_context r))) = N"
    by (auto simp: react_execute_def)
next
  assume "N \<le> 0"
  then show "\<exists>r. react_execute str_of N tsk = Returns r \<and>
           thoughts (res_context r) = [] \<and> observations (res_context r) = []"
    by (simp add: react_execute_def execute_iterations_nonpos)
qed

theorem C1_loop_runs_to_cap_witness:
  "(1::int) \<le> 3 \<and>
   (\<exists>r. react_execute plain_str 3 ''calculate 2+2'' = Returns r \<and>
        res_iterations r = 3 \<and>
        int (length (thoughts (res_context r))) = 3 \<and>
        int (length (observations (res_context r))) = 3) \<and>
   (0::int) \<le> 0 \<and>
   (\<exists>r. react_execute plain_str 0 ''calculate 2+2'' = Returns r \<and>
        thoughts (res_context r) = [] \<and> observations (res_context r) = [])"
  using C1_loop_runs_to_cap [of 3 plain_str "''calculate 2+2''"]
    C1_loop_runs_to_cap [of 0 plain_str "''calculate 2+2''"]
  by simp

text \<open>
  C5 (the code at the failing input): the only observation is a successful tool result
  with a payload, itself a dictionary with \<open>status = success\<close> and the payload \<open>4\<close>, and
  the final answer is the generic completion message, not the payload.
\<close>

theorem C5_final_answer_ignores_success:
  "generate_final_answer plain_str
     \<lparr>task = ''calculate 2+2'', thoughts = [], actions = [],
      observations =
        [PDict [(''status'', PStr ''success''),
                (''result'', PDict [(''status'', PStr ''success''), (''result'', PStr ''4'')])]]\<rparr>
   = generic_answer \<and>
   generic_answer \<noteq> ''4''"
  by (simp add: generate_final_answer_def generic_answer_def)

section \<open>Properties of the short-term memory\<close>

lemma dict_has_iff: "dict_has d k \<longleftrightarrow> k \<in> set (map fst d)"
  by (simp add: dict_has_def map_of_eq_None_iff)

lemma set_keys_delete: "set (map fst (AList.delete k d)) = set (map fst d) - {k}"
  by (induction d) auto

lemma length_delete_present:
  "distinct (map fst d) \<Longrightarrow> k \<in> set (map fst d) \<Longrightarrow> Suc (length (AList.delete k d)) = length d"
proof (induction d)
  case Nil
  then show ?case by simp
next
  case (Cons a d)
  show ?case
  proof (cases "fst a = k")
    case True
    with Cons.prems have "k \<notin> fst ` set d" by auto
    then have "AList.delete k d = d" by (rule AList.delete_id)
    with True show ?thesis by (cases a) simp
  next
    case False
    with Cons show ?thesis by (cases a) auto
  qed
qed

lemma stm_delete_present:
  assumes "stm_consistent s" "dict_has (items s) i"
  shows "stm_delete s i =
     (s\<lparr>items := AList.delete i (items s),
        access_times := AList.delete i (access_times s),
        creation_times := AList.delete i (creation_times s),
        lru_queue := filter (\<lambda>(t, j). dict_has (AList.delete i (items s)) j) (lru_queue s)\<rparr>, Inr True)"
proof -
  from assms have "dict_has (access_times s) i" "dict_has (creation_times s) i"
    by (simp_all add: stm_consistent_def dict_has_iff)
  with assms(2) show ?thesis
    by (simp add: stm_delete_def Let_def)
qed

lemma stm_delete_absent: "\<not> dict_has (items s) i \<Longrightarrow> stm_delete s i = (s, Inr False)"
  by (simp add: stm_delete_def)

lemma stm_delete_consistent:
  assumes "stm_consistent s"
  shows "stm_consistent (fst (stm_delete s i))"
proof (cases "dict_has (items s) i")
  case True
  from assms show ?thesis
    by (simp add: stm_delete_present [OF assms True] stm_consistent_def set_keys_delete distinct_delete
             del: set_map)
next
  case False
  with assms show ?thesis by (simp add: stm_delete_absent)
qed

lemma stm_delete_no_error: "stm_consistent s \<Longrightarrow> \<exists>b. snd (stm_delete s i) = Inr b"
  by (cases "dict_has (items s) i") (auto simp: stm_delete_present stm_delete_absent)

lemma stm_delete_items:
  "stm_consistent s \<Longrightarrow> items (fst (stm_delete s i)) = AList.delete i (items s)"
  by (cases "dict_has (items s) i")
     (simp_all add: stm_delete_present stm_delete_absent dict_has_iff AList.delete_id)

lemma stm_delete_creation_times:
  "stm_consistent s \<Longrightarrow> creation_times (fst (stm_delete s i)) = AList.delete i (creation_times s)"
  by (cases "dict_has (items s) i")
     (simp_all add: stm_delete_present stm_delete_absent dict_has_iff AList.delete_id stm_consistent_def)

lemma stm_delete_params:
  "capacity (fst (stm_delete s i)) = capacity s \<and> ttl (fst (stm_delete s i)) = ttl s"
  by (simp add: stm_delete_def Let_def)

lemma stm_delete_each_ok:
  "stm_consistent s \<Longrightarrow>
   snd (stm_delete_each s ids) = Inr () \<and>
   stm_consistent (fst (stm_delete_each s ids)) \<and>
   items (fst (stm_delete_each s ids)) = filter (\<lambda>(k, v). k \<notin> set ids) (items s) \<and>
   creation_times (fst (stm_delete_each s ids)) = filter (\<lambda>(k, v). k \<notin> set ids) (creation_times s) \<and>
   capacity (fst (stm_delete_each s ids)) = capacity s \<and>
   ttl (fst (stm_delete_each s ids)) = ttl s"
proof (induction ids arbitrary: s)
  case Nil
  then show ?case by simp
next
  case (Cons i ids)
  obtain s' r where d: "stm_delete s i = (s', r)" by (cases "stm_delete s i") auto
  from stm_delete_no_error [OF Cons.prems, of i] d obtain b where r: "r = Inr b" by auto
  from stm_delete_consistent [OF Cons.prems, of i] d have c: "stm_consistent s'" by simp
  from stm_delete_items [OF Cons.prems, of i] d have it: "items s' = AList.delete i (items s)" by simp
  from stm_delete_creation_times [OF Cons.prems, of i] d
  have ct: "creation_times s' = AList.delete i (creation_times s)" by simp
  from stm_delete_params [of s i] d have p: "capacity s' = capacity s" "ttl s' = ttl s" by simp_all
  from Cons.IH [OF c] show ?case
    by (auto simp: d r it ct p AList.delete_eq intro!: filter_cong)
qed

lemma expired_identifiers_iff:
  "k \<in> set (expired_identifiers s now) \<longleftrightarrow>
   (\<exists>ct. (k, ct) \<in> set (creation_times s) \<and> now - ct > real_of_int (ttl s))"
  by (force simp: expired_identifiers_def)

lemma stm_prune_expired_ok:
  assumes "stm_consistent s"
  shows "snd (stm_prune_expired s now) = Inr () \<and>
   stm_consistent (fst (stm_prune_expired s now)) \<and>
   items (fst (stm_prune_expired s now)) =
     filter (\<lambda>(k, v). k \<notin> set (expired_identifiers s now)) (items s) \<and>
   creation_times (fst (stm_prune_expired s now)) =
     filter (\<lambda>(k, ct). \<not> now - ct > real_of_int (ttl s)) (creation_times s) \<and>
   capacity (fst (stm_prune_expired s now)) = capacity s \<and>
   ttl (fst (stm_prune_expired s now)) = ttl s"
proof -
  have "filter (\<lambda>(k, v). k \<notin> set (expired_identifiers s now)) (creation_times s) =
        filter (\<lambda>(k, ct). \<not> now - ct > real_of_int (ttl s)) (creation_times s)"
  proof (rule filter_cong [OF refl], clarify)
    fix k ct assume m: "(k, ct) \<in> set (creation_times s)"
    from assms have d: "distinct (map fst (creation_times s))" by (simp add: stm_consistent_def)
    have "k \<in> set (expired_identifiers s now) \<longleftrightarrow>
          (\<exists>ct'. (k, ct') \<in> set (creation_times s) \<and> now - ct' > real_of_int (ttl s))"
      by (rule expired_identifiers_iff)
    also have "\<dots> \<longleftrightarrow> now - ct > real_of_int (ttl s)"
      using m d by (auto dest: eq_key_imp_eq_value)
    finally show "(k \<notin> set (expired_identifiers s now)) = (\<not> real_of_int (ttl s) < now - ct)"
      by simp
  qed
  with stm_delete_each_ok [OF assms, of "expired_identifiers s now"] show ?thesis
    by (simp add: stm_prune_expired_def)
qed




declare stm_evict_lru.simps [simp del]

lemma stm_evict_lru_one:
  "stm_consistent s \<Longrightarrow> \<exists>e\<in>set (lru_queue s). dict_has (items s) (snd e) \<Longrightarrow>
   snd (stm_evict_lru s) = Inr () \<and>
   stm_consistent (fst (stm_evict_lru s)) \<and>
   (\<exists>i. dict_has (items s) i \<and> items (fst (stm_evict_lru s)) = AList.delete i (items s) \<and>
        creation_times (fst (stm_evict_lru s)) = AList.delete i (creation_times s)) \<and>
   capacity (fst (stm_evict_lru s)) = capacity s \<and> ttl (fst (stm_evict_lru s)) = ttl s"
proof (induction s rule: stm_evict_lru.induct)
  case (1 s)
  let ?m = "Min (set (lru_queue s))"
  let ?s1 = "s\<lparr>lru_queue := snd (heappop (lru_queue s))\<rparr>"
  from "1.prems"(2) have ne: "lru_queue s \<noteq> []" by auto
  have c1: "stm_consistent ?s1"
    using "1.prems"(1) by (simp add: stm_consistent_def)
  show ?case
  proof (cases "dict_has (items s) (snd ?m)")
    case True
    then have live: "dict_has (items ?s1) (snd ?m)" by simp
    have ev: "stm_evict_lru s =
        (case stm_delete ?s1 (snd ?m) of (s2, Inl e) \<Rightarrow> (s2, Inl e) | (s2, Inr _) \<Rightarrow> (s2, Inr ()))"
      using ne True by (subst stm_evict_lru.simps) (simp add: heappop_def Let_def)
    show ?thesis
      using True stm_delete_consistent [OF c1, of "snd ?m"]
      by (auto simp: ev stm_delete_present [OF c1 live])
  next
    case False
    have ev: "stm_evict_lru s = stm_evict_lru ?s1"
      using ne False by (subst stm_evict_lru.simps) (simp add: heappop_def Let_def)
    from "1.prems"(2) obtain e where e: "e \<in> set (lru_queue s)" "dict_has (items s) (snd e)"
      by auto
    with False have "e \<noteq> ?m" by auto
    with e have "\<exists>e\<in>set (lru_queue ?s1). dict_has (items ?s1) (snd e)"
      by (auto simp: heappop_def)
    moreover have "\<not> dict_has (items ?s1) (snd (fst (heappop (lru_queue s))))"
      using False by (simp add: heappop_def)
    ultimately show ?thesis
      using "1.IH" [OF ne refl refl _ c1] by (simp add: ev)
  qed
qed

lemma set_keys_update: "set (map fst (AList.update k v d)) = insert k (set (map fst d))"
  using AList.dom_update [of k v d] by simp

lemma length_update_le: "length (AList.update k v d) \<le> Suc (length d)"
  by (induction d) auto

lemma stm_insert_ok:
  assumes "stm_consistent s"
  shows "stm_consistent (stm_insert s t0 i item)"
    and "\<exists>e\<in>set (lru_queue (stm_insert s t0 i item)). dict_has (items (stm_insert s t0 i item)) (snd e)"
    and "length (items (stm_insert s t0 i item)) \<le> Suc (length (items s))"
    and "map_of (items (stm_insert s t0 i item)) i = Some item"
    and "map_of (creation_times (stm_insert s t0 i item)) i = Some t0"
    and "capacity (stm_insert s t0 i item) = capacity s" and "ttl (stm_insert s t0 i item) = ttl s"
proof -
  from assms show "stm_consistent (stm_insert s t0 i item)"
    by (simp add: stm_insert_def stm_consistent_def distinct_update set_keys_update del: set_map)
  show "\<exists>e\<in>set (lru_queue (stm_insert s t0 i item)). dict_has (items (stm_insert s t0 i item)) (snd e)"
    by (rule bexI [of _ "(t0, i)"]) (simp_all add: stm_insert_def heappush_def dict_has_def update_conv')
qed (simp_all add: stm_insert_def length_update_le update_conv')

text \<open>On a consistent store \<open>add\<close> raises nothing before the division, and its state is this.\<close>

lemma stm_add_state:
  assumes c: "stm_consistent s"
  shows "fst (stm_add s pt t0 i item) =
           (let s2 = stm_insert (fst (stm_prune_expired s pt)) t0 i item
            in if int (length (items s2)) > capacity s then fst (stm_evict_lru s2) else s2)"
proof -
  define s1 where "s1 = fst (stm_prune_expired s pt)"
  define s2 where "s2 = stm_insert s1 t0 i item"
  note ok = stm_prune_expired_ok [OF c, of pt]
  from ok have c1: "stm_consistent s1" by (simp add: s1_def)
  note ins = stm_insert_ok [OF c1, of t0 i item, folded s2_def]
  from ok ins have cap: "capacity s2 = capacity s" by (simp add: s1_def)
  obtain r where p: "stm_prune_expired s pt = (s1, r)"
    by (cases "stm_prune_expired s pt") (auto simp: s1_def)
  with ok have r: "r = Inr ()" by simp
  have "fst (stm_add s pt t0 i item) =
           (if int (length (items s2)) > capacity s then fst (stm_evict_lru s2) else s2)"
  proof (cases "int (length (items s2)) > capacity s")
    case True
    obtain s3 r3 where e: "stm_evict_lru s2 = (s3, r3)" by (cases "stm_evict_lru s2") auto
    from stm_evict_lru_one [OF ins(1) ins(2)] e have "r3 = Inr ()" by simp
    with True cap show ?thesis
      by (simp add: stm_add_def p r Let_def s2_def [symmetric] e)
  next
    case False
    with cap show ?thesis
      by (simp add: stm_add_def p r Let_def s2_def [symmetric])
  qed
  then show ?thesis by (simp add: Let_def s2_def s1_def)
qed

lemma stm_add_invariant:
  assumes c: "stm_consistent s" and b: "int (length (items s)) \<le> capacity s"
  shows "stm_consistent (fst (stm_add s pt t0 i item)) \<and>
         int (length (items (fst (stm_add s pt t0 i item)))) \<le> capacity (fst (stm_add s pt t0 i item)) \<and>
         capacity (fst (stm_add s pt t0 i item)) = capacity s \<and>
         ttl (fst (stm_add s pt t0 i item)) = ttl s"
proof -
  define s1 where "s1 = fst (stm_prune_expired s pt)"
  define s2 where "s2 = stm_insert s1 t0 i item"
  note ok = stm_prune_expired_ok [OF c, of pt]
  from ok have c1: "stm_consistent s1" by (simp add: s1_def)
  note ins = stm_insert_ok [OF c1, of t0 i item, folded s2_def]
  from ok ins have par: "capacity s2 = capacity s" "ttl s2 = ttl s" by (simp_all add: s1_def)
  note st = stm_add_state [OF c, of pt t0 i item, unfolded Let_def, folded s1_def, folded s2_def]
  have "length (items s1) \<le> length (items s)"
    using ok by (simp add: s1_def)
  with ins(3) b have l2: "int (length (items s2)) \<le> capacity s + 1"
    by simp
  show ?thesis
  proof (cases "int (length (items s2)) > capacity s")
    case True
    from stm_evict_lru_one [OF ins(1) ins(2)] obtain j where
      j: "dict_has (items s2) j" "items (fst (stm_evict_lru s2)) = AList.delete j (items s2)"
      and c3: "stm_consistent (fst (stm_evict_lru s2))"
      and p3: "capacity (fst (stm_evict_lru s2)) = capacity s2" "ttl (fst (stm_evict_lru s2)) = ttl s2"
      by auto
    from ins(1) have "distinct (map fst (items s2))" by (simp add: stm_consistent_def)
    from length_delete_present [OF this, of j] j
    have "Suc (length (items (fst (stm_evict_lru s2)))) = length (items s2)"
      by (simp add: dict_has_iff)
    with l2 True c3 p3 par show ?thesis
      by (simp add: st)
  next
    case False
    with ins(1) par show ?thesis by (simp add: st)
  qed
qed

lemma stm_init_consistent: "stm_consistent (stm_init cap ttl0)"
  by (simp add: stm_init_def stm_consistent_def)

lemma stm_add_all_invariant:
  "stm_consistent s \<Longrightarrow> int (length (items s)) \<le> capacity s \<Longrightarrow>
   stm_consistent (stm_add_all s calls) \<and>
   int (length (items (stm_add_all s calls))) \<le> capacity s \<and>
   capacity (stm_add_all s calls) = capacity s"
proof (induction calls arbitrary: s)
  case Nil
  then show ?case by simp
next
  case (Cons call calls)
  obtain pt t0 i item where call: "call = (pt, t0, i, item)" by (cases call) auto
  from stm_add_invariant [OF Cons.prems, of pt t0 i item] Cons.IH [of "fst (stm_add s pt t0 i item)"]
  show ?case by (simp add: call)
qed


section \<open>Claims about the short-term memory\<close>



text \<open>
  C2 (as stated, refuted): with the capacity configured as -1, one \<open>add\<close> leaves the store
  empty, and 0 items is more than the capacity.
\<close>

theorem C2_negative_capacity:
  "\<not> int (length (items (stm_add_all (stm_init (- 1) 3600) [(1, 1, ''id-a'', [(''name'', PStr ''A'')])])))
      \<le> - 1"
  by code_simp

text \<open>
  C2 (amended): for every capacity \<open>cap \<ge> 0\<close> and every sequence of \<open>add\<close> calls on a fresh
  store, the number of stored items (expired or not) after each call is at most \<open>cap\<close>.
  When the insertion of an \<open>add\<close> brings a consistent store above its capacity, the call
  ends with the inserted store less exactly one stored identifier \<open>j\<close>. \<open>_evict_lru\<close>, on
  any consistent store whose queue names at least one stored identifier, raises
  nothing and deletes exactly one stored identifier, whatever stale entries the queue
  holds in front of it: every other item stays and none comes back.
\<close>

theorem C2_capacity_bound:
  "(0 \<le> cap \<longrightarrow> int (length (items (stm_add_all (stm_init cap ttl0) calls))) \<le> cap) \<and>
   (stm_consistent s \<and> int (length (items (stm_insert (fst (stm_prune_expired s pt)) t0 i item))) > capacity s \<longrightarrow>
      (\<exists>j. dict_has (items (stm_insert (fst (stm_prune_expired s pt)) t0 i item)) j \<and>
           items (fst (stm_add s pt t0 i item)) =
             AList.delete j (items (stm_insert (fst (stm_prune_expired s pt)) t0 i item)))) \<and>
   (stm_consistent s \<and> (\<exists>e\<in>set (lru_queue s). dict_has (items s) (snd e)) \<longrightarrow>
      snd (stm_evict_lru s) = Inr () \<and>
      (\<exists>j. dict_has (items s) j \<and> items (fst (stm_evict_lru s)) = AList.delete j (items s)))"
proof (intro conjI impI)
  assume "0 \<le> cap"
  then have "int (length (items (stm_init cap ttl0))) \<le> capacity (stm_init cap ttl0)"
    by (simp add: stm_init_def)
  from stm_add_all_invariant [OF stm_init_consistent this, of calls]
  show "int (length (items (stm_add_all (stm_init cap ttl0) calls))) \<le> cap"
    by (simp add: stm_init_def)
next
  assume a: "stm_consistent s \<and> (\<exists>e\<in>set (lru_queue s). dict_has (items s) (snd e))"
  with stm_evict_lru_one [of s] show "snd (stm_evict_lru s) = Inr ()" by simp
  from a stm_evict_lru_one [of s]
  show "\<exists>j. dict_has (items s) j \<and> items (fst (stm_evict_lru s)) = AList.delete j (items s)"
    by auto
next
  let ?s2 = "stm_insert (fst (stm_prune_expired s pt)) t0 i item"
  assume a: "stm_consistent s \<and> int (length (items ?s2)) > capacity s"
  then have c: "stm_consistent s" by simp
  from stm_prune_expired_ok [OF c, of pt] have c1: "stm_consistent (fst (stm_prune_expired s pt))"
    by simp
  note ins = stm_insert_ok [OF c1, of t0 i item]
  from a have "fst (stm_add s pt t0 i item) = fst (stm_evict_lru ?s2)"
    by (simp add: stm_add_state [OF c] Let_def)
  with stm_evict_lru_one [OF ins(1) ins(2)]
  show "\<exists>j. dict_has (items ?s2) j \<and> items (fst (stm_add s pt t0 i item)) = AList.delete j (items ?s2)"
    by auto
qed

theorem C2_capacity_bound_witness:
  "(0::int) \<le> 1 \<and>
   int (length (items (stm_add_all (stm_init 1 3600)
      [(1, 1, ''id-a'', [(''name'', PStr ''A'')]), (2, 2, ''id-b'', [(''name'', PStr ''B'')])]))) \<le> 1 \<and>
   stm_consistent stale_store \<and>
   int (length (items (stm_insert (fst (stm_prune_expired stale_store 3)) 3 ''id-c'' [(''name'', PStr ''C'')])))
     > capacity stale_store \<and>
   (\<exists>e\<in>set (lru_queue stale_store). dict_has (items stale_store) (snd e)) \<and>
   snd (stm_evict_lru stale_store) = Inr () \<and>
   (\<exists>j. dict_has (items stale_store) j \<and>
        items (fst (stm_evict_lru stale_store)) = AList.delete j (items stale_store))"
proof -
  have h1: "stm_consistent stale_store"
    by code_simp
  have h2: "int (length (items (stm_insert (fst (stm_prune_expired stale_store 3)) 3 ''id-c'' [(''name'', PStr ''C'')])))
     > capacity stale_store"
    by code_simp
  have h3: "\<exists>e\<in>set (lru_queue stale_store). dict_has (items stale_store) (snd e)"
    by code_simp
  from C2_capacity_bound [of 1 3600
      "[(1, 1, ''id-a'', [(''name'', PStr ''A'')]), (2, 2, ''id-b'', [(''name'', PStr ''B'')])]"
      stale_store 3 3 "''id-c''" "[(''name'', PStr ''C'')]"] h1 h2 h3
  show ?thesis by simp
qed

text \<open>
  C4 (the code at the failing input): capacity 3; A, B, C are added at times 1, 2, 3;
  \<open>get\<close> of A at time 4 returns A and sets its access time to 4, and leaves the queue as
  it was; the \<open>add\<close> of D at time 5 then evicts A, whose queue entry \<open>(1, id-a)\<close> is the
  least, and keeps B.
\<close>

theorem C4_insertion_order_eviction:
  "map fst (items (fst (stm_add (fst (stm_get
      (stm_add_all (stm_init 3 3600)
         [(1, 1, ''id-a'', [(''name'', PStr ''A'')]),
          (2, 2, ''id-b'', [(''name'', PStr ''B'')]),
          (3, 3, ''id-c'', [(''name'', PStr ''C'')])])
      4 4 ''id-a'')) 5 5 ''id-d'' [(''name'', PStr ''D'')])))
   = [''id-b'', ''id-c'', ''id-d''] \<and>
   stm_get
      (stm_add_all (stm_init 3 3600)
         [(1, 1, ''id-a'', [(''name'', PStr ''A'')]),
          (2, 2, ''id-b'', [(''name'', PStr ''B'')]),
          (3, 3, ''id-c'', [(''name'', PStr ''C'')])])
      4 4 ''id-a''
   = (\<lparr>capacity = 3, ttl = 3600,
        items = [(''id-a'', [(''name'', PStr ''A'')]), (''id-b'', [(''name'', PStr ''B'')]),
                 (''id-c'', [(''name'', PStr ''C'')])],
        access_times = [(''id-a'', 4), (''id-b'', 2), (''id-c'', 3)],
        creation_times = [(''id-a'', 1), (''id-b'', 2), (''id-c'', 3)],
        lru_queue = [(1, ''id-a''), (2, ''id-b''), (3, ''id-c'')]\<rparr>,
      Inr (Some [(''name'', PStr ''A'')]))"
  by code_simp

section \<open>Claims about the long-term memory\<close>

text \<open>
  C9 (the code at the failing input): one item is added under project \<open>p1\<close> at time 10
  and updated at time 20 with project \<open>p2\<close>. The update keeps \<open>created_at = 10\<close>, sets
  \<open>updated_at = 20\<close> and moves the identifier to the bucket of \<open>p2\<close>, and the bucket of
  \<open>p1\<close> stays in the project index, empty. \<open>_remove_from_indexes\<close> on the same store
  deletes the bucket it empties.
\<close>

theorem C9_update_leaves_empty_bucket:
  "ltm_update
     (fst (ltm_add (ltm_init True 1000) 10 ''id-1'' [(''name'', PStr ''n''), (''project'', PStr ''p1'')]))
     20 20 ''id-1'' [(''name'', PStr ''n''), (''project'', PStr ''p2'')]
   = (\<lparr>index_in_memory = True, max_items_per_category = 1000,
       files =
         [(''id-1'',
           [(''name'', PStr ''n''), (''project'', PStr ''p2''),
            (''_meta'',
             PDict [(''id'', PStr ''id-1''), (''created_at'', PFloat 10), (''updated_at'', PFloat 20),
                    (''project'', PStr ''p1''), (''category'', PStr ''general'')])])],
       index =
         [(''id-1'',
           [(''name'', PStr ''n''), (''project'', PStr ''p2''),
            (''_meta'',
             PDict [(''id'', PStr ''id-1''), (''created_at'', PFloat 10), (''updated_at'', PFloat 20),
                    (''project'', PStr ''p2''), (''category'', PStr ''general'')])])],
       category_index = [(PStr ''general'', [''id-1''])],
       project_index = [(PStr ''p1'', []), (PStr ''p2'', [''id-1''])]\<rparr>,
      Inr True) \<and>
   project_index (fst (remove_from_indexes
     (fst (ltm_add (ltm_init True 1000) 10 ''id-1'' [(''name'', PStr ''n''), (''project'', PStr ''p1'')]))
     ''id-1'')) = []"
  by code_simp

text \<open>
  C10: whatever the store, the limit and the outcome of the search, the caller's query
  dictionary is, after the call, the dictionary it was without the keys \<open>project\<close> and
  \<open>category\<close>: these two keys are gone, every other key is still there with its value
  and in its place.
\<close>

theorem C10_search_pops_filters:
  "fst (ltm_search lt dumps s query limit) =
     filter (\<lambda>(k, v). k \<noteq> ''project'' \<and> k \<noteq> ''category'') query \<and>
   map_of (fst (ltm_search lt dumps s query limit)) =
     (\<lambda>k. if k = ''project'' \<or> k = ''category'' then None else map_of query k)"
proof -
  have eq: "fst (ltm_search lt dumps s query limit) = AList.delete ''category'' (AList.delete ''project'' query)"
    by (simp add: ltm_search_def Let_def)
  have "AList.delete ''category'' (AList.delete ''project'' query) =
      filter (\<lambda>(k, v). k \<noteq> ''project'' \<and> k \<noteq> ''category'') query"
    by (auto simp: AList.delete_eq intro!: filter_cong)
  moreover have "map_of (AList.delete ''category'' (AList.delete ''project'' query)) =
     (\<lambda>k. if k = ''project'' \<or> k = ''category'' then None else map_of query k)"
    by (auto simp: delete_conv')
  ultimately show ?thesis by (simp add: eq)
qed

section \<open>Properties of tool execution\<close>






lemma first_tool_class_some:
  "first_tool_class s classes = Returns (s', r) \<Longrightarrow> r = None \<Longrightarrow> s' = s"
  by (auto simp: first_tool_class_def split: list.splits outcome.splits)





section \<open>Claim about the tool boundary\<close>



section \<open>Properties of the router\<close>















section \<open>Claim about the router\<close>




section \<open>Properties of the complexity score and of the dispatch\<close>








section \<open>Claim about the complexity gate\<close>



end
